theory Spec2Isabelle
  imports Complex_Main "HOL-Library.Word" "HOL-Library.Log_Nat"
begin

unbundle bit_operations_syntax

section \<open>Numbers and vectors\<close>

text \<open>
  The program is TypeScript. Its \<open>number\<close> values are modelled as exact numbers:
  \<open>real\<close> for coordinates, angles, velocities and times, \<open>int\<close> and \<open>nat\<close> for
  counters, \<open>32 word\<close> where the source works on 32-bit integers. The rounding of
  double arithmetic is written out in two places: the integer state of the random generator
  (section "Scenery placement"), and the sway step (\<open>sway_step_double\<close>), which stands
  next to its exact counterpart.

  \<open>Vector3\<close>, \<open>Quaternion\<close> and \<open>Euler\<close> come from the three.js library. The
  operations below are the ones the controller calls, with the arithmetic three.js performs.
\<close>

datatype vec3 = Vec3 (vx: real) (vy: real) (vz: real)

datatype quat = Quat (qx: real) (qy: real) (qz: real) (qw: real)

definition add :: "vec3 \<Rightarrow> vec3 \<Rightarrow> vec3" where
  "add a b = Vec3 (vx a + vx b) (vy a + vy b) (vz a + vz b)"

definition sub :: "vec3 \<Rightarrow> vec3 \<Rightarrow> vec3" where
  "sub a b = Vec3 (vx a - vx b) (vy a - vy b) (vz a - vz b)"

definition multiplyScalar :: "vec3 \<Rightarrow> real \<Rightarrow> vec3" where
  "multiplyScalar a s = Vec3 (vx a * s) (vy a * s) (vz a * s)"

definition lengthSq :: "vec3 \<Rightarrow> real" where
  "lengthSq a = vx a * vx a + vy a * vy a + vz a * vz a"

definition vlength :: "vec3 \<Rightarrow> real" where
  "vlength a = sqrt (lengthSq a)"

text \<open>\<open>normalize\<close> divides by the length, or by 1 when the length is 0.\<close>

definition normalize_vec :: "vec3 \<Rightarrow> vec3" where
  "normalize_vec a = multiplyScalar a (1 / (if vlength a = 0 then 1 else vlength a))"

text \<open>\<open>a.lerp(b, alpha)\<close>: each component moves by \<open>(b - a) * alpha\<close>.\<close>

definition lerp :: "vec3 \<Rightarrow> vec3 \<Rightarrow> real \<Rightarrow> vec3" where
  "lerp a b alpha =
     Vec3 (vx a + (vx b - vx a) * alpha)
          (vy a + (vy b - vy a) * alpha)
          (vz a + (vz b - vz a) * alpha)"

text \<open>\<open>Quaternion.setFromEuler\<close> for an Euler triple in the order \<open>'YXZ'\<close>.\<close>

definition setFromEuler :: "real \<Rightarrow> real \<Rightarrow> real \<Rightarrow> quat" where
  "setFromEuler ex ey ez =
     (let c1 = cos (ex / 2); c2 = cos (ey / 2); c3 = cos (ez / 2);
          s1 = sin (ex / 2); s2 = sin (ey / 2); s3 = sin (ez / 2)
      in Quat (s1 * c2 * c3 + c1 * s2 * s3)
              (c1 * s2 * c3 - s1 * c2 * s3)
              (c1 * c2 * s3 - s1 * s2 * c3)
              (c1 * c2 * c3 + s1 * s2 * s3))"

definition applyQuaternion :: "vec3 \<Rightarrow> quat \<Rightarrow> vec3" where
  "applyQuaternion v q =
     (let tx = 2 * (qy q * vz v - qz q * vy v);
          ty = 2 * (qz q * vx v - qx q * vz v);
          tz = 2 * (qx q * vy v - qy q * vx v)
      in Vec3 (vx v + qw q * tx + qy q * tz - qz q * ty)
              (vy v + qw q * ty + qz q * tx - qx q * tz)
              (vz v + qw q * tz + qx q * ty - qy q * tx))"

definition applyEuler :: "vec3 \<Rightarrow> real \<Rightarrow> real \<Rightarrow> real \<Rightarrow> vec3" where
  "applyEuler v ex ey ez = applyQuaternion v (setFromEuler ex ey ez)"

section \<open>The player controller\<close>

definition MOVE_SPEED :: real where "MOVE_SPEED = 4.5"
definition LOOK_SENSITIVITY :: real where "LOOK_SENSITIVITY = 0.0035"
definition CAMERA_HEIGHT :: real where "CAMERA_HEIGHT = 1.3"
definition MAX_PITCH :: real where "MAX_PITCH = pi / 2 - 0.05"
definition JUMP_IMPULSE :: real where "JUMP_IMPULSE = 4.5"
definition GUN_POSITION_OFFSET :: vec3 where "GUN_POSITION_OFFSET = Vec3 0.2 (- 0.35) (- 0.5)"
definition GUN_MUZZLE_OFFSET :: vec3 where "GUN_MUZZLE_OFFSET = Vec3 0 0.13 (- 0.75)"
definition GUN_SWAY_INTENSITY :: real where "GUN_SWAY_INTENSITY = 0.045"
definition GUN_SWAY_SMOOTHING :: real where "GUN_SWAY_SMOOTHING = 12"
definition PROJECTILE_SPEED :: real where "PROJECTILE_SPEED = 30"
definition PROJECTILE_LIFETIME_MS :: nat where "PROJECTILE_LIFETIME_MS = 2400"

record key_state =
  forward :: bool
  backward :: bool
  left :: bool
  right :: bool
  jump :: bool

record projectile_instance =
  proj_id :: nat
  origin :: vec3
  direction :: vec3

text \<open>
  The mutable state of one mounted \<open>PlayerController\<close>: its refs, the vectors it keeps
  between frames, the camera and gun poses it writes, and the module-level \<open>keyState\<close>.
\<close>

record controller =
  yaw :: real
  pitch :: real
  keyState :: key_state
  contactCount :: int
  jumpRequested :: bool
  gunSway :: vec3
  camera_position :: vec3
  camera_quaternion :: quat
  gun_position :: vec3
  gun_quaternion :: quat
  projectileIdRef :: nat
  projectiles :: "projectile_instance list"

text \<open>
  The state after mount: every ref at its initial value. \<open>keyState\<close> is a record of the
  module, not of the component: it is created with no key held when the module is loaded and
  keeps its value when the controller is unmounted and mounted again. So the key state found
  at mount is a parameter, like the camera pose that the scene gave the camera before the
  first frame.
\<close>

definition initial_controller :: "vec3 \<Rightarrow> quat \<Rightarrow> key_state \<Rightarrow> controller" where
  "initial_controller cam_pos cam_quat keys =
     \<lparr> yaw = 0, pitch = 0,
       keyState = keys,
       contactCount = 0, jumpRequested = False,
       gunSway = Vec3 0 0 0,
       camera_position = cam_pos, camera_quaternion = cam_quat,
       gun_position = Vec3 0 0 0, gun_quaternion = Quat 0 0 0 1,
       projectileIdRef = 0, projectiles = [] \<rparr>"

text \<open>\<open>keyState\<close> as the module creates it.\<close>

definition no_keys :: key_state where
  "no_keys =
     \<lparr> forward = False, backward = False, left = False, right = False, jump = False \<rparr>"

subsection \<open>Keyboard, pointer and collision handlers\<close>

definition onKeyDown :: "bool \<Rightarrow> string \<Rightarrow> controller \<Rightarrow> controller" where
  "onKeyDown repeat code c =
     (if repeat then c
      else if code = ''KeyW'' then c\<lparr>keyState := (keyState c)\<lparr>forward := True\<rparr>\<rparr>
      else if code = ''KeyS'' then c\<lparr>keyState := (keyState c)\<lparr>backward := True\<rparr>\<rparr>
      else if code = ''KeyA'' then c\<lparr>keyState := (keyState c)\<lparr>left := True\<rparr>\<rparr>
      else if code = ''KeyD'' then c\<lparr>keyState := (keyState c)\<lparr>right := True\<rparr>\<rparr>
      else if code = ''Space''
        then c\<lparr>keyState := (keyState c)\<lparr>jump := True\<rparr>, jumpRequested := True\<rparr>
      else c)"

definition onKeyUp :: "string \<Rightarrow> controller \<Rightarrow> controller" where
  "onKeyUp code c =
     (if code = ''KeyW'' then c\<lparr>keyState := (keyState c)\<lparr>forward := False\<rparr>\<rparr>
      else if code = ''KeyS'' then c\<lparr>keyState := (keyState c)\<lparr>backward := False\<rparr>\<rparr>
      else if code = ''KeyA'' then c\<lparr>keyState := (keyState c)\<lparr>left := False\<rparr>\<rparr>
      else if code = ''KeyD'' then c\<lparr>keyState := (keyState c)\<lparr>right := False\<rparr>\<rparr>
      else if code = ''Space'' then c\<lparr>keyState := (keyState c)\<lparr>jump := False\<rparr>\<rparr>
      else c)"

text \<open>
  \<open>handlePointerMove\<close>: \<open>locked\<close> is the test \<open>document.pointerLockElement === canvas\<close>,
  \<open>invertY\<close> the component's prop.
\<close>

definition handlePointerMove ::
  "bool \<Rightarrow> bool \<Rightarrow> real \<Rightarrow> real \<Rightarrow> controller \<Rightarrow> controller" where
  "handlePointerMove invertY locked movementX movementY c =
     (if \<not> locked then c
      else
        let yaw' = yaw c - movementX * LOOK_SENSITIVITY;
            invertFactor = (if invertY then LOOK_SENSITIVITY else - LOOK_SENSITIVITY);
            pitch' = pitch c + movementY * invertFactor
        in c\<lparr>yaw := yaw', pitch := max (- MAX_PITCH) (min MAX_PITCH pitch')\<rparr>)"

definition onCollisionEnter :: "controller \<Rightarrow> controller" where
  "onCollisionEnter c = c\<lparr>contactCount := contactCount c + 1\<rparr>"

definition onCollisionExit :: "controller \<Rightarrow> controller" where
  "onCollisionExit c = c\<lparr>contactCount := max 0 (contactCount c - 1)\<rparr>"

text \<open>
  \<open>spawnProjectile\<close> and \<open>handleProjectileExpire\<close>. \<open>setProjectiles\<close> appends to,
  or filters, the list held in the component's state.
\<close>

definition spawnProjectile :: "controller \<Rightarrow> controller" where
  "spawnProjectile c =
     (let cameraDirection = normalize_vec (applyQuaternion (Vec3 0 0 (- 1)) (camera_quaternion c));
          muzzleOffsetWorld =
            applyQuaternion (add (add GUN_POSITION_OFFSET (gunSway c)) GUN_MUZZLE_OFFSET)
              (camera_quaternion c);
          muzzleWorldPosition = add (camera_position c) muzzleOffsetWorld;
          i = projectileIdRef c
      in c\<lparr> projectileIdRef := projectileIdRef c + 1,
             projectiles := projectiles c @
               [\<lparr> proj_id = i, origin = muzzleWorldPosition, direction = cameraDirection \<rparr>] \<rparr>)"

definition handleProjectileExpire :: "nat \<Rightarrow> controller \<Rightarrow> controller" where
  "handleProjectileExpire i c =
     c\<lparr> projectiles := filter (\<lambda>projectile. proj_id projectile \<noteq> i) (projectiles c) \<rparr>"

subsection \<open>The frame callback\<close>

text \<open>
  The rigid body belongs to the physics engine. A frame reads \<open>translation()\<close> and
  \<open>linvel()\<close> from the handle and calls \<open>setLinvel\<close>, \<open>setAngvel\<close> and
  \<open>applyImpulse\<close> on it; the model takes the two readings as input and returns the
  calls, in order, each with its \<open>wake\<close> flag.
\<close>

record rigid_body =
  translation :: vec3
  linvel :: vec3

datatype body_call =
    SetLinvel vec3 bool
  | SetAngvel vec3 bool
  | ApplyImpulse vec3 bool

definition frontVector :: "real \<Rightarrow> vec3" where
  "frontVector yw = applyEuler (Vec3 0 0 (- 1)) 0 yw 0"

definition sideVector :: "real \<Rightarrow> vec3" where
  "sideVector yw = applyEuler (Vec3 (- 1) 0 0) 0 yw 0"

text \<open>Lines 237 to 247: the sum of the held directions, normalised and scaled.\<close>

definition move_direction :: "key_state \<Rightarrow> real \<Rightarrow> vec3" where
  "move_direction k yw =
     (let d0 = Vec3 0 0 0;
          d1 = (if forward k then add d0 (frontVector yw) else d0);
          d2 = (if backward k then sub d1 (frontVector yw) else d1);
          d3 = (if left k then add d2 (sideVector yw) else d2);
          d4 = (if right k then sub d3 (sideVector yw) else d3);
          lsq = lengthSq d4;
          desiredSpeed = (if lsq > 0 then MOVE_SPEED else 0)
      in if lsq > 0 then multiplyScalar (normalize_vec d4) desiredSpeed else d4)"

text \<open>
  Lines 261 to 263: the sway target and one step of the sway towards it, in exact arithmetic
  like the rest of the frame. The same step with the roundings of doubles is
  \<open>sway_step_double\<close> below.
\<close>

definition gunSwayTarget :: "vec3 \<Rightarrow> vec3" where
  "gunSwayTarget currentVelocity =
     multiplyScalar (Vec3 (- vx currentVelocity) 0 (- vz currentVelocity)) GUN_SWAY_INTENSITY"

definition sway_step :: "vec3 \<Rightarrow> real \<Rightarrow> vec3 \<Rightarrow> vec3" where
  "sway_step currentVelocity delta sway =
     (let lerpFactor = 1 - exp (- GUN_SWAY_SMOOTHING * delta)
      in lerp sway (gunSwayTarget currentVelocity) lerpFactor)"

text \<open>Line 272: the test that guards the jump impulse.\<close>

definition jump_fires :: "controller \<Rightarrow> vec3 \<Rightarrow> bool" where
  "jump_fires c currentVelocity \<longleftrightarrow>
     jumpRequested c \<and> contactCount c > 0 \<and> \<bar>vy currentVelocity\<bar> < 0.2"

text \<open>
  \<open>useFrame\<close>: \<open>bodyRef\<close> is \<open>None\<close> while the rigid body is not mounted, \<open>gunRef\<close>
  tells whether the gun group is mounted, \<open>delta\<close> is the frame's elapsed time.
\<close>

definition useFrame ::
  "rigid_body option \<Rightarrow> bool \<Rightarrow> real \<Rightarrow> controller \<Rightarrow> controller \<times> body_call list" where
  "useFrame bodyRef gunRef delta c =
     (case bodyRef of
        None \<Rightarrow> (c, [])
      | Some body \<Rightarrow>
          let t = translation body;
              cam_pos = Vec3 (vx t) (vy t + CAMERA_HEIGHT) (vz t);
              cam_quat = setFromEuler (pitch c) (yaw c) 0;
              dir = move_direction (keyState c) (yaw c);
              currentVelocity = linvel body;
              write = SetLinvel (Vec3 (vx dir) (vy currentVelocity) (vz dir)) True;
              sway = (if gunRef then sway_step currentVelocity delta (gunSway c)
                      else gunSway c);
              gunOffsetWorld = applyQuaternion (add GUN_POSITION_OFFSET sway) cam_quat;
              spin = SetAngvel (Vec3 0 0 0) True;
              impulse = (if jump_fires c currentVelocity
                         then [ApplyImpulse (Vec3 0 JUMP_IMPULSE 0) True] else [])
          in (c\<lparr> camera_position := cam_pos,
                 camera_quaternion := cam_quat,
                 gunSway := sway,
                 gun_position := (if gunRef then add cam_pos gunOffsetWorld
                                  else gun_position c),
                 gun_quaternion := (if gunRef then cam_quat else gun_quaternion c),
                 jumpRequested := False \<rparr>,
              write # spin # impulse))"

text \<open>The velocities written with \<open>setLinvel\<close> by a list of calls, in order.\<close>

fun written_velocities :: "body_call list \<Rightarrow> vec3 list" where
  "written_velocities [] = []"
| "written_velocities (SetLinvel v w # cs) = v # written_velocities cs"
| "written_velocities (_ # cs) = written_velocities cs"

text \<open>The impulses applied with \<open>applyImpulse\<close> by a list of calls, in order.\<close>

fun applied_impulses :: "body_call list \<Rightarrow> vec3 list" where
  "applied_impulses [] = []"
| "applied_impulses (ApplyImpulse v w # cs) = v # applied_impulses cs"
| "applied_impulses (_ # cs) = applied_impulses cs"

text \<open>The magnitude of the horizontal (x, z) part of a velocity.\<close>

definition horizontal_speed :: "vec3 \<Rightarrow> real" where
  "horizontal_speed v = sqrt (vx v * vx v + vz v * vz v)"

text \<open>
  The direction sum as the specification words it: each axis contributes \<open>+1\<close>, \<open>-1\<close>
  or \<open>0\<close> times its vector, forward against backward on the front vector, left against
  right on the side vector.
\<close>

definition axis :: "bool \<Rightarrow> bool \<Rightarrow> real" where
  "axis p m = (if p then 1 else 0) - (if m then 1 else 0)"

definition spec_direction_sum :: "key_state \<Rightarrow> vec3 \<Rightarrow> vec3 \<Rightarrow> vec3" where
  "spec_direction_sum k front side =
     add (multiplyScalar front (axis (forward k) (backward k)))
         (multiplyScalar side (axis (left k) (right k)))"

definition spec_move_direction :: "key_state \<Rightarrow> vec3 \<Rightarrow> vec3 \<Rightarrow> vec3" where
  "spec_move_direction k front side =
     (let d = spec_direction_sum k front side
      in if d = Vec3 0 0 0 then Vec3 0 0 0
         else multiplyScalar d (MOVE_SPEED / vlength d))"

subsection \<open>Runs of the controller\<close>

text \<open>
  The browser and the engine call the handlers and the frame callback one at a time, in some
  order. A run is a list of such calls; \<open>invertY\<close> is the prop in force during the run.
\<close>

datatype event =
    KeyDown bool string
  | KeyUp string
  | PointerMove bool real real
  | CollisionEnter
  | CollisionExit
  | Frame "rigid_body option" bool real

fun dispatch :: "bool \<Rightarrow> event \<Rightarrow> controller \<Rightarrow> controller \<times> body_call list" where
  "dispatch invertY (KeyDown repeat code) c = (onKeyDown repeat code c, [])"
| "dispatch invertY (KeyUp code) c = (onKeyUp code c, [])"
| "dispatch invertY (PointerMove locked mx my) c = (handlePointerMove invertY locked mx my c, [])"
| "dispatch invertY CollisionEnter c = (onCollisionEnter c, [])"
| "dispatch invertY CollisionExit c = (onCollisionExit c, [])"
| "dispatch invertY (Frame bodyRef gunRef delta) c = useFrame bodyRef gunRef delta c"

fun run :: "bool \<Rightarrow> event list \<Rightarrow> controller \<Rightarrow> controller \<times> body_call list" where
  "run invertY [] c = (c, [])"
| "run invertY (e # es) c =
     (let (c1, calls1) = dispatch invertY e c;
          (c2, calls2) = run invertY es c1
      in (c2, calls1 @ calls2))"

text \<open>The number of Space key-down events of a run that are not key repeats.\<close>

fun jump_presses :: "event list \<Rightarrow> nat" where
  "jump_presses [] = 0"
| "jump_presses (KeyDown repeat code # es) =
     (if \<not> repeat \<and> code = ''Space'' then 1 else 0) + jump_presses es"
| "jump_presses (_ # es) = jump_presses es"

text \<open>The jump requests waiting for the next frame: one or none.\<close>

definition pending :: "controller \<Rightarrow> nat" where
  "pending c = (if jumpRequested c then 1 else 0)"

text \<open>The change of the stored pitch made by each event of a run.\<close>

fun pitch_deltas :: "bool \<Rightarrow> event list \<Rightarrow> controller \<Rightarrow> real list" where
  "pitch_deltas invertY [] c = []"
| "pitch_deltas invertY (e # es) c =
     (let c1 = fst (dispatch invertY e c)
      in (pitch c1 - pitch c) # pitch_deltas invertY es c1)"

text \<open>The stored yaw after each event of a run.\<close>

fun yaw_trace :: "bool \<Rightarrow> event list \<Rightarrow> controller \<Rightarrow> real list" where
  "yaw_trace invertY [] c = []"
| "yaw_trace invertY (e # es) c =
     (let c1 = fst (dispatch invertY e c)
      in yaw c1 # yaw_trace invertY es c1)"

text \<open>A list of frames with the body mounted, as events.\<close>

definition frames :: "(rigid_body \<times> bool \<times> real) list \<Rightarrow> event list" where
  "frames fs = map (\<lambda>(body, gunRef, delta). Frame (Some body) gunRef delta) fs"

text \<open>The vertical velocity that \<open>linvel()\<close> returns in each frame of a run that has a body.\<close>

fun vertical_readings :: "event list \<Rightarrow> real list" where
  "vertical_readings [] = []"
| "vertical_readings (Frame (Some body) gunRef delta # es) =
     vy (linvel body) # vertical_readings es"
| "vertical_readings (_ # es) = vertical_readings es"

text \<open>
  Sample inputs: the body at rest where it is mounted, and a controller mounted for the first
  time.
\<close>

definition body_at_rest :: rigid_body where
  "body_at_rest = \<lparr> translation = Vec3 0 1.3 8, linvel = Vec3 0 0 0 \<rparr>"

definition fresh_controller :: controller where
  "fresh_controller = initial_controller (Vec3 7 6 10) (Quat 0 0 0 1) no_keys"

text \<open>A controller that has looked up by one pointer move, to the pitch 0.7.\<close>

definition looked_up :: controller where
  "looked_up = handlePointerMove False True 0 (- 200) fresh_controller"

definition holding :: "bool \<Rightarrow> bool \<Rightarrow> bool \<Rightarrow> bool \<Rightarrow> controller" where
  "holding f b l r =
     fresh_controller\<lparr> keyState :=
       \<lparr> forward = f, backward = b, left = l, right = r, jump = False \<rparr> \<rparr>"


subsection \<open>The sway step in double arithmetic\<close>








section \<open>Projectile timers\<close>

text \<open>
  Each \<open>Projectile\<close> component, when it mounts, gives its body the velocity
  \<open>direction * PROJECTILE_SPEED\<close> and calls
  \<open>window.setTimeout(() => onExpire(id), PROJECTILE_LIFETIME_MS)\<close>. The timers of the
  browser are modelled by a clock in milliseconds and the list of pending timeouts, each with
  the time it is due and the id it will pass to \<open>handleProjectileExpire\<close>. When the clock
  advances, the timeouts that are due run, in the order they were set, and leave the list.
  A projectile mounts in the render that follows its spawn; the model takes the two together.
\<close>

record world =
  ctrl :: controller
  now :: nat
  timeouts :: "(nat \<times> nat) list"

definition projectile_velocity :: "projectile_instance \<Rightarrow> vec3" where
  "projectile_velocity p = multiplyScalar (direction p) PROJECTILE_SPEED"

definition initial_world :: "vec3 \<Rightarrow> quat \<Rightarrow> key_state \<Rightarrow> world" where
  "initial_world cam_pos cam_quat keys =
     \<lparr> ctrl = initial_controller cam_pos cam_quat keys, now = 0, timeouts = [] \<rparr>"

definition fire :: "world \<Rightarrow> world" where
  "fire w =
     w\<lparr> ctrl := spawnProjectile (ctrl w),
        timeouts := timeouts w @ [(now w + PROJECTILE_LIFETIME_MS, projectileIdRef (ctrl w))] \<rparr>"

definition expire_all :: "(nat \<times> nat) list \<Rightarrow> controller \<Rightarrow> controller" where
  "expire_all due c = fold (\<lambda>(t, i). handleProjectileExpire i) due c"

definition elapse :: "nat \<Rightarrow> world \<Rightarrow> world" where
  "elapse ms w =
     (let t = now w + ms
      in w\<lparr> ctrl := expire_all (filter (\<lambda>(due, i). due \<le> t) (timeouts w)) (ctrl w),
            now := t,
            timeouts := filter (\<lambda>(due, i). \<not> due \<le> t) (timeouts w) \<rparr>)"

datatype world_event = Fire | Elapse nat | Input bool event

fun world_step :: "world_event \<Rightarrow> world \<Rightarrow> world" where
  "world_step Fire w = fire w"
| "world_step (Elapse ms) w = elapse ms w"
| "world_step (Input invertY e) w = w\<lparr> ctrl := fst (dispatch invertY e (ctrl w)) \<rparr>"

definition run_world :: "world_event list \<Rightarrow> world \<Rightarrow> world" where
  "run_world evs w = fold world_step evs w"

text \<open>The milliseconds that pass during a list of events.\<close>

fun elapsed :: "world_event list \<Rightarrow> nat" where
  "elapsed [] = 0"
| "elapsed (Elapse ms # evs) = ms + elapsed evs"
| "elapsed (_ # evs) = elapsed evs"

definition active_ids :: "world \<Rightarrow> nat list" where
  "active_ids w = map proj_id (projectiles (ctrl w))"

text \<open>
  Two invariants of the timer list. \<open>timers_known\<close>: every pending timeout carries an id
  below \<open>projectileIdRef\<close>, so none carries the id of the next projectile.
  \<open>tracked i T\<close>: the projectile \<open>i\<close> has been spawned, every timeout with its id is due
  at \<open>T\<close>, and before \<open>T\<close> the projectile is in the list with its timeout pending, from
  \<open>T\<close> on it is not in the list.
\<close>

definition timers_known :: "world \<Rightarrow> bool" where
  "timers_known w \<longleftrightarrow> list_all (\<lambda>(due, j). j < projectileIdRef (ctrl w)) (timeouts w)"

definition tracked :: "nat \<Rightarrow> nat \<Rightarrow> world \<Rightarrow> bool" where
  "tracked i T w \<longleftrightarrow>
     i < projectileIdRef (ctrl w)
     \<and> list_all (\<lambda>(due, j). j = i \<longrightarrow> due = T) (timeouts w)
     \<and> (if now w < T
        then i \<in> set (active_ids w) \<and> (T, i) \<in> set (timeouts w)
        else i \<notin> set (active_ids w))"

section \<open>Scenery placement\<close>

text \<open>
  \<open>mulberry32\<close> keeps its state in a \<open>number\<close> that starts as an unsigned 32-bit integer
  and grows by \<open>0x6d2b79f5\<close> at every draw, without being reduced. The sum is a double:
  \<open>to_double\<close> is the double nearest to a natural number, ties to the even mantissa: the
  number itself below \<open>2 ^ 53\<close>, and above it the nearest multiple of \<open>2 ^ e\<close>, where
  \<open>e\<close> is the number of bits beyond 53. The bitwise operators and \<open>Math.imul\<close> work on
  the value modulo \<open>2 ^ 32\<close>, so \<open>t\<close> is a \<open>32 word\<close>.
\<close>

definition to_double :: "nat \<Rightarrow> nat" where
  "to_double n =
     (if n < 2 ^ 53 then n
      else
        let e = floorlog 2 n - 53;
            q = n div 2 ^ e;
            r = n mod 2 ^ e
        in if 2 * r < 2 ^ e \<or> (2 * r = 2 ^ e \<and> even q) then q * 2 ^ e
           else (q + 1) * 2 ^ e)"

text \<open>\<open>seed >>> 0\<close>: the seed truncated towards zero, modulo \<open>2 ^ 32\<close>.\<close>

definition ToUint32 :: "real \<Rightarrow> 32 word" where
  "ToUint32 x = word_of_int (if 0 \<le> x then \<lfloor>x\<rfloor> else \<lceil>x\<rceil>)"

definition mulberry32 :: "real \<Rightarrow> nat" where
  "mulberry32 seed = unat (ToUint32 seed)"

text \<open>
  One call of the closure that \<open>mulberry32\<close> returns (the caller names it \<open>random\<close>):
  the new state and the number drawn.
\<close>

definition mulberry32_next :: "nat \<Rightarrow> nat \<times> real" where
  "mulberry32_next state =
     (let state' = to_double (state + 0x6d2b79f5);
          t0 = (word_of_nat state' :: 32 word);
          t1 = (t0 XOR drop_bit 15 t0) * (t0 OR 1);
          t2 = t1 XOR (t1 + (t1 XOR drop_bit 7 t1) * (t1 OR 61))
      in (state', real (unat (t2 XOR drop_bit 14 t2)) / 4294967296))"

definition TAU :: real where "TAU = pi * 2"

datatype center = Center2 real real | Center3 real real real

fun centerX :: "center \<Rightarrow> real" where
  "centerX (Center2 a b) = a"
| "centerX (Center3 a b c) = a"

fun centerZ :: "center \<Rightarrow> real" where
  "centerZ (Center2 a b) = b"
| "centerZ (Center3 a b c) = c"

record placement =
  key :: "string \<times> nat"
  position :: vec3
  rotation :: vec3

text \<open>
  The scene enters through two parameters: \<open>groundMeshes\<close>, the objects that
  \<open>scene.traverse\<close> finds with \<open>userData.isGround === true\<close>, and \<open>intersectObjects\<close>,
  the points where three.js's raycaster, from an origin along a direction up to a distance
  \<open>far\<close>, meets them, nearest first.
\<close>

type_synonym 'm raycast = "'m list \<Rightarrow> vec3 \<Rightarrow> vec3 \<Rightarrow> real \<Rightarrow> vec3 list"

text \<open>An instance from its three numbers, in the order angle, distance, yaw.\<close>

definition place_at ::
  "string \<Rightarrow> center \<Rightarrow> real \<Rightarrow> 'm list \<Rightarrow> 'm raycast \<Rightarrow> nat \<Rightarrow> real \<Rightarrow> real \<Rightarrow> real
     \<Rightarrow> placement" where
  "place_at componentName cen clampedRadius groundMeshes intersectObjects index angle distance yw =
     (let positionX = centerX cen + cos angle * distance;
          positionZ = centerZ cen + sin angle * distance;
          maxRayHeight = 200;
          positionY =
            (if length groundMeshes > 0
             then (case intersectObjects groundMeshes (Vec3 positionX maxRayHeight positionZ)
                          (Vec3 0 (- 1) 0) (maxRayHeight * 2) of
                     [] \<Rightarrow> 0
                   | point # _ \<Rightarrow> vy point)
             else 0)
      in \<lparr> key = (componentName, index),
           position = Vec3 positionX positionY positionZ,
           rotation = Vec3 0 yw 0 \<rparr>)"

text \<open>The callback of \<open>Array.from\<close>: three draws, then the instance; the state is threaded.\<close>

definition place_instance ::
  "string \<Rightarrow> center \<Rightarrow> real \<Rightarrow> 'm list \<Rightarrow> 'm raycast \<Rightarrow> nat \<Rightarrow> nat \<Rightarrow> placement \<times> nat" where
  "place_instance componentName cen clampedRadius groundMeshes intersectObjects index state =
     (let (s1, r1) = mulberry32_next state;
          angle = r1 * TAU;
          (s2, r2) = mulberry32_next s1;
          distance = sqrt r2 * clampedRadius;
          (s3, r3) = mulberry32_next s2;
          yw = r3 * TAU
      in (place_at componentName cen clampedRadius groundMeshes intersectObjects index
            angle distance yw, s3))"

fun place_from ::
  "string \<Rightarrow> center \<Rightarrow> real \<Rightarrow> 'm list \<Rightarrow> 'm raycast \<Rightarrow> nat \<Rightarrow> nat \<Rightarrow> nat \<Rightarrow> placement list" where
  "place_from componentName cen clampedRadius groundMeshes intersectObjects index 0 state = []"
| "place_from componentName cen clampedRadius groundMeshes intersectObjects index (Suc n) state =
     (let (p, state') =
            place_instance componentName cen clampedRadius groundMeshes intersectObjects index state
      in p # place_from componentName cen clampedRadius groundMeshes intersectObjects
               (index + 1) n state')"

text \<open>
  The \<open>placements\<close> memo of \<open>SceneryCluster\<close>. \<open>Array.from\<close> throws a \<open>RangeError\<close> for
  a length above \<open>2 ^ 32 - 1\<close>.
\<close>

datatype js_error = RangeError

definition placements ::
  "string \<Rightarrow> center \<Rightarrow> real \<Rightarrow> real \<Rightarrow> real \<Rightarrow> 'm list \<Rightarrow> 'm raycast
     \<Rightarrow> js_error + placement list" where
  "placements componentName cen count radius seed groundMeshes intersectObjects =
     (let normalizedCount = max 0 \<lfloor>count\<rfloor>;
          clampedRadius = max 0 radius
      in if normalizedCount = 0 then Inr []
         else if normalizedCount > 4294967295 then Inl RangeError
         else Inr (place_from componentName cen clampedRadius groundMeshes intersectObjects
                     0 (nat normalizedCount) (mulberry32 seed)))"

text \<open>
  The generator as a stream: its state after \<open>k\<close> draws, and the \<open>k\<close>-th number it
  returns, counted from 0.
\<close>

fun rng_state :: "nat \<Rightarrow> nat \<Rightarrow> nat" where
  "rng_state state 0 = state"
| "rng_state state (Suc k) = rng_state (fst (mulberry32_next state)) k"

definition draw :: "real \<Rightarrow> nat \<Rightarrow> real" where
  "draw seed k = snd (mulberry32_next (rng_state (mulberry32 seed) k))"

section \<open>The movement integrator\<close>

text \<open>
  A rotation by the Euler triple \<open>(0, yaw, 0)\<close> is the rotation about the vertical axis:
  the two vectors of a frame depend on the yaw alone and stay in the horizontal plane.
\<close>

lemma frontVector_eq: "frontVector yw = Vec3 (- sin yw) 0 (- cos yw)"
  using sin_double [of "yw / 2"] cos_double_sin [of "yw / 2"]
  by (simp add: frontVector_def applyEuler_def applyQuaternion_def setFromEuler_def Let_def
      power2_eq_square)

lemma sideVector_eq: "sideVector yw = Vec3 (- cos yw) 0 (sin yw)"
  using sin_double [of "yw / 2"] cos_double_sin [of "yw / 2"]
  by (simp add: sideVector_def applyEuler_def applyQuaternion_def setFromEuler_def Let_def
      power2_eq_square)

lemma direction_sum_eq:
  "spec_direction_sum k (frontVector yw) (sideVector yw) =
     Vec3 (- axis (forward k) (backward k) * sin yw - axis (left k) (right k) * cos yw)
          0
          (- axis (forward k) (backward k) * cos yw + axis (left k) (right k) * sin yw)"
  by (simp add: spec_direction_sum_def frontVector_eq sideVector_eq add_def multiplyScalar_def)

lemma key_sum_spec:
  "(if right k
    then sub (if left k
              then add (if backward k
                        then sub (if forward k then add (Vec3 0 0 0) f else Vec3 0 0 0) f
                        else (if forward k then add (Vec3 0 0 0) f else Vec3 0 0 0)) s
              else (if backward k
                    then sub (if forward k then add (Vec3 0 0 0) f else Vec3 0 0 0) f
                    else (if forward k then add (Vec3 0 0 0) f else Vec3 0 0 0))) s
    else (if left k
          then add (if backward k
                    then sub (if forward k then add (Vec3 0 0 0) f else Vec3 0 0 0) f
                    else (if forward k then add (Vec3 0 0 0) f else Vec3 0 0 0)) s
          else (if backward k
                then sub (if forward k then add (Vec3 0 0 0) f else Vec3 0 0 0) f
                else (if forward k then add (Vec3 0 0 0) f else Vec3 0 0 0))))
   = spec_direction_sum k f s"
  by (simp add: spec_direction_sum_def add_def sub_def multiplyScalar_def axis_def)

lemma move_direction_sum:
  "move_direction k yw =
     (if lengthSq (spec_direction_sum k (frontVector yw) (sideVector yw)) > 0
      then multiplyScalar (normalize_vec (spec_direction_sum k (frontVector yw) (sideVector yw)))
             MOVE_SPEED
      else spec_direction_sum k (frontVector yw) (sideVector yw))"
  unfolding move_direction_def Let_def key_sum_spec by simp

lemma rotated_length:
  fixes a b s c :: real
  assumes "s * s + c * c = 1"
  shows "(a * s + b * c) * (a * s + b * c) + (b * s - a * c) * (b * s - a * c) = a * a + b * b"
proof -
  have "(a * s + b * c) * (a * s + b * c) + (b * s - a * c) * (b * s - a * c)
          = (a * a + b * b) * (s * s + c * c)"
    by (simp add: algebra_simps)
  then show ?thesis by (simp add: assms)
qed

lemma lengthSq_direction_sum:
  "lengthSq (spec_direction_sum k (frontVector yw) (sideVector yw)) =
     axis (forward k) (backward k) * axis (forward k) (backward k)
       + axis (left k) (right k) * axis (left k) (right k)"
proof -
  have sc: "sin yw * sin yw + cos yw * cos yw = 1"
    using sin_cos_squared_add [of yw] by (simp add: power2_eq_square)
  have "lengthSq (spec_direction_sum k (frontVector yw) (sideVector yw))
          = (axis (forward k) (backward k) * sin yw + axis (left k) (right k) * cos yw)
              * (axis (forward k) (backward k) * sin yw + axis (left k) (right k) * cos yw)
          + (axis (left k) (right k) * sin yw - axis (forward k) (backward k) * cos yw)
              * (axis (left k) (right k) * sin yw - axis (forward k) (backward k) * cos yw)"
    by (simp add: direction_sum_eq lengthSq_def algebra_simps)
  then show ?thesis using rotated_length [OF sc] by simp
qed

lemma lengthSq_nonneg: "0 \<le> lengthSq v"
  by (simp add: lengthSq_def)

lemma lengthSq_zero_iff: "lengthSq v = 0 \<longleftrightarrow> v = Vec3 0 0 0"
proof
  assume z: "lengthSq v = 0"
  have "vx v * vx v + (vy v * vy v + vz v * vz v) = 0"
    using z by (simp add: lengthSq_def)
  then have "vx v * vx v = 0" "vy v * vy v + vz v * vz v = 0"
    by (simp_all add: add_nonneg_eq_0_iff)
  then have "vx v = 0" "vy v = 0" "vz v = 0"
    by (simp_all add: add_nonneg_eq_0_iff)
  then show "v = Vec3 0 0 0" by (cases v) simp
next
  assume "v = Vec3 0 0 0"
  then show "lengthSq v = 0" by (simp add: lengthSq_def)
qed

lemma lengthSq_multiplyScalar: "lengthSq (multiplyScalar v s) = lengthSq v * (s * s)"
  by (simp add: lengthSq_def multiplyScalar_def algebra_simps)

lemma lengthSq_scaled_normalize:
  assumes "lengthSq v > 0"
  shows "lengthSq (multiplyScalar (normalize_vec v) s) = s * s"
proof -
  let ?l = "sqrt (lengthSq v)"
  have l: "?l \<noteq> 0" "?l * ?l = lengthSq v" using assms by simp_all
  have "lengthSq (multiplyScalar (normalize_vec v) s)
          = lengthSq v * ((1 / ?l) * (1 / ?l)) * (s * s)"
    using l(1) by (simp add: normalize_vec_def vlength_def lengthSq_multiplyScalar)
  also have "(1 / ?l) * (1 / ?l) = 1 / lengthSq v"
    using l(2) by simp
  finally show ?thesis using assms by simp
qed

lemma move_direction_spec:
  "move_direction k yw = spec_move_direction k (frontVector yw) (sideVector yw)"
proof -
  let ?d = "spec_direction_sum k (frontVector yw) (sideVector yw)"
  show ?thesis
  proof (cases "?d = Vec3 0 0 0")
    case True
    then show ?thesis
      by (simp add: move_direction_sum spec_move_direction_def Let_def lengthSq_def)
  next
    case False
    then have pos: "lengthSq ?d > 0"
      using lengthSq_nonneg [of ?d] lengthSq_zero_iff [of ?d] by simp
    then have "vlength ?d \<noteq> 0" by (simp add: vlength_def)
    then have "multiplyScalar (normalize_vec ?d) MOVE_SPEED
                 = multiplyScalar ?d (MOVE_SPEED / vlength ?d)"
      by (simp add: normalize_vec_def multiplyScalar_def)
    then show ?thesis using False pos
      by (simp add: move_direction_sum spec_move_direction_def Let_def)
  qed
qed

lemma vy_move_direction: "vy (move_direction k yw) = 0"
  by (simp add: move_direction_sum Let_def direction_sum_eq multiplyScalar_def normalize_vec_def)

lemma horizontal_speed_move_direction:
  "horizontal_speed (move_direction k yw) =
     (if forward k = backward k \<and> left k = right k then 0 else MOVE_SPEED)"
proof -
  let ?d = "spec_direction_sum k (frontVector yw) (sideVector yw)"
  have hs: "horizontal_speed (move_direction k yw) = sqrt (lengthSq (move_direction k yw))"
    using vy_move_direction [of k yw] by (simp add: horizontal_speed_def lengthSq_def)
  show ?thesis
  proof (cases "forward k = backward k \<and> left k = right k")
    case True
    then have "lengthSq ?d = 0"
      by (simp add: lengthSq_direction_sum axis_def)
    then show ?thesis using True hs by (simp add: move_direction_sum)
  next
    case False
    then have "lengthSq ?d > 0"
      by (auto simp: lengthSq_direction_sum axis_def)
    then have "lengthSq (move_direction k yw) = MOVE_SPEED * MOVE_SPEED"
      by (simp add: move_direction_sum lengthSq_scaled_normalize)
    then have "horizontal_speed (move_direction k yw) = \<bar>MOVE_SPEED\<bar>"
      using hs by simp
    then show ?thesis using False by (simp add: MOVE_SPEED_def)
  qed
qed

lemma written_useFrame:
  "written_velocities (snd (useFrame (Some body) gunRef delta c))
     = [Vec3 (vx (move_direction (keyState c) (yaw c)))
             (vy (linvel body))
             (vz (move_direction (keyState c) (yaw c)))]"
  by (simp add: useFrame_def Let_def)

lemma move_direction_forward_only:
  assumes "forward k" "\<not> backward k" "\<not> left k" "\<not> right k"
  shows "move_direction k 0 = Vec3 0 0 (- 4.5)"
  using assms
  by (simp add: move_direction_sum Let_def direction_sum_eq axis_def lengthSq_def
      normalize_vec_def vlength_def multiplyScalar_def MOVE_SPEED_def)

lemma move_direction_left_only:
  assumes "\<not> forward k" "\<not> backward k" "left k" "\<not> right k"
  shows "move_direction k 0 = Vec3 (- 4.5) 0 0"
  using assms
  by (simp add: move_direction_sum Let_def direction_sum_eq axis_def lengthSq_def
      normalize_vec_def vlength_def multiplyScalar_def MOVE_SPEED_def)

lemma move_direction_no_key:
  assumes "\<not> forward k" "\<not> backward k" "\<not> left k" "\<not> right k"
  shows "move_direction k yw = Vec3 0 0 0"
  using assms
  by (simp add: move_direction_sum Let_def direction_sum_eq axis_def lengthSq_def)


lemma useFrame_keeps:
  "yaw (fst (useFrame bodyRef gunRef delta c)) = yaw c"
  "pitch (fst (useFrame bodyRef gunRef delta c)) = pitch c"
  "keyState (fst (useFrame bodyRef gunRef delta c)) = keyState c"
  "contactCount (fst (useFrame bodyRef gunRef delta c)) = contactCount c"
  by (simp_all add: useFrame_def Let_def split: option.split)

lemma run_Cons_calls:
  "snd (run invertY (e # es) c) =
     snd (dispatch invertY e c) @ snd (run invertY es (fst (dispatch invertY e c)))"
  by (simp add: Let_def split: prod.split)

lemma run_Cons_state:
  "fst (run invertY (e # es) c) = fst (run invertY es (fst (dispatch invertY e c)))"
  by (simp add: Let_def split: prod.split)

lemma written_velocities_append:
  "written_velocities (xs @ ys) = written_velocities xs @ written_velocities ys"
  by (induction xs rule: written_velocities.induct) simp_all

lemma useFrame_None: "useFrame None gunRef delta c = (c, [])"
  by (simp add: useFrame_def)

text \<open>
  C4. A frame with the body mounted makes one \<open>setLinvel\<close> call. Its x and z are those
  of the movement direction, and its y is the y that \<open>linvel()\<close> returned in that frame,
  for every key state, yaw, gun state and frame time. In a run of any events, the vertical
  velocities written are, frame by frame, the vertical velocities read. When no jump request
  is pending, that write and the reset of the angular velocity are all a frame does to the
  body.
\<close>

theorem C4_vertical_velocity_preserved:
  "written_velocities (snd (useFrame (Some body) gunRef delta c))
     = [Vec3 (vx (move_direction (keyState c) (yaw c)))
             (vy (linvel body))
             (vz (move_direction (keyState c) (yaw c)))]
   \<and> map vy (written_velocities (snd (run invertY evs c))) = vertical_readings evs
   \<and> (\<not> jumpRequested c \<longrightarrow>
        snd (useFrame (Some body) gunRef delta c)
          = [SetLinvel (Vec3 (vx (move_direction (keyState c) (yaw c)))
                             (vy (linvel body))
                             (vz (move_direction (keyState c) (yaw c)))) True,
             SetAngvel (Vec3 0 0 0) True])"
proof (intro conjI)
  show "written_velocities (snd (useFrame (Some body) gunRef delta c))
     = [Vec3 (vx (move_direction (keyState c) (yaw c)))
             (vy (linvel body))
             (vz (move_direction (keyState c) (yaw c)))]"
    by (rule written_useFrame)
  show "map vy (written_velocities (snd (run invertY evs c))) = vertical_readings evs"
  proof (induction evs arbitrary: c)
    case Nil
    show ?case by simp
  next
    case (Cons e es)
    show ?case
    proof (cases e)
      case (Frame bodyRef gunRef delta)
      then show ?thesis
        by (cases bodyRef)
          (simp_all add: run_Cons_calls written_velocities_append Cons.IH written_useFrame
            useFrame_None del: run.simps(2))
    qed (simp_all add: run_Cons_calls written_velocities_append Cons.IH del: run.simps(2))
  qed
  show "\<not> jumpRequested c \<longrightarrow>
        snd (useFrame (Some body) gunRef delta c)
          = [SetLinvel (Vec3 (vx (move_direction (keyState c) (yaw c)))
                             (vy (linvel body))
                             (vz (move_direction (keyState c) (yaw c)))) True,
             SetAngvel (Vec3 0 0 0) True]"
    by (simp add: useFrame_def Let_def jump_fires_def)
qed

text \<open>
  A fresh controller with forward and left held, the body falling at 3 units per second:
  the frame writes the vertical velocity \<open>-3\<close> back and applies no impulse.
\<close>

theorem C4_witness:
  "\<not> jumpRequested (holding True False True False)
   \<and> map vy (written_velocities
         (snd (useFrame (Some \<lparr> translation = Vec3 0 5 8, linvel = Vec3 1 (- 3) 2 \<rparr>)
                True (1 / 60) (holding True False True False))))
       = [- 3]
   \<and> applied_impulses
         (snd (useFrame (Some \<lparr> translation = Vec3 0 5 8, linvel = Vec3 1 (- 3) 2 \<rparr>)
                True (1 / 60) (holding True False True False)))
       = []"
proof -
  have j: "\<not> jumpRequested (holding True False True False)"
    by (simp add: holding_def fresh_controller_def initial_controller_def no_keys_def)
  note fr = C4_vertical_velocity_preserved
    [where body = "\<lparr> translation = Vec3 0 5 8, linvel = Vec3 1 (- 3) 2 \<rparr>"
       and gunRef = True and delta = "1 / 60" and c = "holding True False True False"]
  have "snd (useFrame (Some \<lparr> translation = Vec3 0 5 8, linvel = Vec3 1 (- 3) 2 \<rparr>)
                True (1 / 60) (holding True False True False))
          = [SetLinvel (Vec3 (vx (move_direction (keyState (holding True False True False))
                                    (yaw (holding True False True False))))
                             (vy (linvel \<lparr> translation = Vec3 0 5 8, linvel = Vec3 1 (- 3) 2 \<rparr>))
                             (vz (move_direction (keyState (holding True False True False))
                                    (yaw (holding True False True False))))) True,
             SetAngvel (Vec3 0 0 0) True]"
    using fr [THEN conjunct2, THEN conjunct2] j by (rule mp)
  then show ?thesis using j by simp
qed

text \<open>
  C10. The horizontal speed a frame writes is 0 when forward and backward are held alike and
  left and right are held alike, and 4.5 for every other combination of keys, at every yaw. A
  pair of opposing keys held together contributes nothing: the direction is the one of the
  other keys alone.
\<close>

theorem C10_speed_is_zero_or_move_speed:
  "map horizontal_speed (written_velocities (snd (useFrame (Some body) gunRef delta c)))
     = [if forward (keyState c) = backward (keyState c) \<and> left (keyState c) = right (keyState c)
        then 0 else 4.5]
   \<and> (forward k \<and> backward k \<longrightarrow>
        move_direction k yw = move_direction (k\<lparr>forward := False, backward := False\<rparr>) yw)
   \<and> (left k \<and> right k \<longrightarrow>
        move_direction k yw = move_direction (k\<lparr>left := False, right := False\<rparr>) yw)"
proof -
  have "horizontal_speed (Vec3 (vx (move_direction (keyState c) (yaw c))) (vy (linvel body))
          (vz (move_direction (keyState c) (yaw c))))
        = horizontal_speed (move_direction (keyState c) (yaw c))"
    by (simp add: horizontal_speed_def)
  then have "map horizontal_speed (written_velocities (snd (useFrame (Some body) gunRef delta c)))
     = [if forward (keyState c) = backward (keyState c) \<and> left (keyState c) = right (keyState c)
        then 0 else 4.5]"
    by (simp add: written_useFrame horizontal_speed_move_direction MOVE_SPEED_def)
  moreover have "forward k \<and> backward k \<longrightarrow>
        move_direction k yw = move_direction (k\<lparr>forward := False, backward := False\<rparr>) yw"
    by (simp add: move_direction_sum spec_direction_sum_def axis_def)
  moreover have "left k \<and> right k \<longrightarrow>
        move_direction k yw = move_direction (k\<lparr>left := False, right := False\<rparr>) yw"
    by (simp add: move_direction_sum spec_direction_sum_def axis_def)
  ultimately show ?thesis by blast
qed

text \<open>
  All four keys held: the speed written is 0. Forward, backward and left held: the direction
  is the one of left alone.
\<close>

theorem C10_witness:
  "map horizontal_speed
     (written_velocities (snd (useFrame (Some body_at_rest) False 0 (holding True True True True))))
     = [0]
   \<and> move_direction (keyState (holding True True True False)) 0
       = move_direction (keyState (holding False False True False)) 0"
  using C10_speed_is_zero_or_move_speed
          [of body_at_rest False 0 "holding True True True True"
              "keyState (holding True True True False)" 0]
  by (simp add: holding_def)

lemma frames_Cons:
  "frames ((body, gunRef, delta) # fs) = Frame (Some body) gunRef delta # frames fs"
  by (simp add: frames_def)

lemma run_frames_keeps:
  "yaw (fst (run invertY (frames fs) c)) = yaw c
   \<and> keyState (fst (run invertY (frames fs) c)) = keyState c"
proof (induction fs arbitrary: c)
  case Nil
  show ?case by (simp add: frames_def)
next
  case (Cons f fs)
  obtain body gunRef delta where f: "f = (body, gunRef, delta)" by (cases f)
  show ?case
    using Cons.IH [of "fst (useFrame (Some body) gunRef delta c)"]
    by (simp add: f frames_Cons run_Cons_state useFrame_keeps del: run.simps(2))
qed

lemma hold_forward_writes:
  assumes "yaw c = 0" and "forward (keyState c)" and "\<not> backward (keyState c)"
    and "\<not> left (keyState c)" and "\<not> right (keyState c)"
  shows "written_velocities (snd (run invertY (frames fs) c))
           = map (\<lambda>f. Vec3 0 (vy (linvel (fst f))) (- 4.5)) fs"
  using assms
proof (induction fs arbitrary: c)
  case Nil
  show ?case by (simp add: frames_def)
next
  case (Cons f fs)
  obtain body gunRef delta where f: "f = (body, gunRef, delta)" by (cases f)
  let ?c1 = "fst (useFrame (Some body) gunRef delta c)"
  have "written_velocities (snd (run invertY (frames fs) ?c1))
           = map (\<lambda>f. Vec3 0 (vy (linvel (fst f))) (- 4.5)) fs"
    using Cons.prems by (intro Cons.IH) (simp_all add: useFrame_keeps)
  moreover have "move_direction (keyState c) (yaw c) = Vec3 0 0 (- 4.5)"
    using Cons.prems by (simp add: move_direction_forward_only)
  ultimately show ?case
    by (simp add: f frames_Cons run_Cons_calls written_velocities_append written_useFrame
        del: run.simps(2))
qed

text \<open>
  C5. With yaw 0 and only the forward key held, every frame of the hold writes
  \<open>(0, y, -4.5)\<close>, \<open>y\<close> being the vertical velocity read in that frame. After the key-up
  of \<open>KeyW\<close>, the next frame writes \<open>(0, y, 0)\<close>.
\<close>

theorem C5_forward_hold_then_release:
  assumes "yaw c = 0" and "forward (keyState c)" and "\<not> backward (keyState c)"
    and "\<not> left (keyState c)" and "\<not> right (keyState c)"
  shows "written_velocities (snd (run invertY (frames fs) c))
           = map (\<lambda>f. Vec3 0 (vy (linvel (fst f))) (- 4.5)) fs
       \<and> written_velocities
           (snd (run invertY [KeyUp ''KeyW'', Frame (Some body) gunRef delta]
                  (fst (run invertY (frames fs) c))))
           = [Vec3 0 (vy (linvel body)) 0]"
proof
  show "written_velocities (snd (run invertY (frames fs) c))
           = map (\<lambda>f. Vec3 0 (vy (linvel (fst f))) (- 4.5)) fs"
    using assms by (rule hold_forward_writes)
  let ?c1 = "fst (run invertY (frames fs) c)"
  let ?k = "keyState (onKeyUp ''KeyW'' ?c1)"
  have k: "keyState ?c1 = keyState c" and y: "yaw ?c1 = yaw c"
    using run_frames_keeps [of invertY fs c] by simp_all
  have "\<not> forward ?k" "\<not> backward ?k" "\<not> left ?k" "\<not> right ?k"
    using assms k by (simp_all add: onKeyUp_def)
  then have "move_direction ?k (yaw (onKeyUp ''KeyW'' ?c1)) = Vec3 0 0 0"
    by (rule move_direction_no_key)
  then show "written_velocities
           (snd (run invertY [KeyUp ''KeyW'', Frame (Some body) gunRef delta] ?c1))
           = [Vec3 0 (vy (linvel body)) 0]"
    by (simp add: run_Cons_calls written_useFrame del: run.simps(2))
qed

text \<open>
  Two frames of hold from a fresh controller with the forward key down, then the release.
\<close>

theorem C5_witness:
  "yaw (holding True False False False) = 0
   \<and> forward (keyState (holding True False False False))
   \<and> written_velocities
       (snd (run False (frames [(body_at_rest, True, 1 / 60), (body_at_rest, True, 1 / 60)])
              (holding True False False False)))
       = [Vec3 0 0 (- 4.5), Vec3 0 0 (- 4.5)]
   \<and> written_velocities
       (snd (run False [KeyUp ''KeyW'', Frame (Some body_at_rest) True (1 / 60)]
              (fst (run False (frames [(body_at_rest, True, 1 / 60), (body_at_rest, True, 1 / 60)])
                     (holding True False False False)))))
       = [Vec3 0 0 0]"
  using C5_forward_hold_then_release
          [of "holding True False False False" False
              "[(body_at_rest, True, 1 / 60), (body_at_rest, True, 1 / 60)]" body_at_rest True "1 / 60"]
  by (simp add: holding_def fresh_controller_def initial_controller_def no_keys_def body_at_rest_def)

text \<open>
  C2, as stated, fails: the side vector is the rotated axis \<open>(-1, 0, 0)\<close>, which is
  world-left, and the left key alone at yaw 0 writes \<open>-4.5\<close> along x, not \<open>+4.5\<close>.
\<close>

theorem C2_counterexample:
  "sideVector 0 = Vec3 (- 1) 0 0
   \<and> sideVector 0 \<noteq> Vec3 1 0 0
   \<and> written_velocities
       (snd (useFrame (Some body_at_rest) False 0 (holding False False True False)))
       = [Vec3 (- 4.5) 0 0]
   \<and> written_velocities
       (snd (useFrame (Some body_at_rest) False 0 (holding False False True False)))
       \<noteq> [Vec3 4.5 0 0]"
  by (simp add: sideVector_eq written_useFrame move_direction_left_only holding_def
      fresh_controller_def initial_controller_def no_keys_def body_at_rest_def)

text \<open>
  C2, amended. The front vector is world-forward \<open>(0, 0, -1)\<close> rotated by the yaw alone, the
  side vector is world-left \<open>(-1, 0, 0)\<close> rotated by the yaw alone. The direction is the sum
  in which forward adds the front vector, backward subtracts it, left adds the side vector and
  right subtracts it, scaled to length 4.5 when it is not zero. The left key alone at yaw 0
  writes the horizontal velocity \<open>(-4.5, y, 0)\<close>: magnitude 4.5 along world-left.
\<close>

theorem C2_direction_from_left_axis:
  "frontVector yw = Vec3 (- sin yw) 0 (- cos yw)
   \<and> sideVector yw = Vec3 (- cos yw) 0 (sin yw)
   \<and> move_direction k yw = spec_move_direction k (frontVector yw) (sideVector yw)
   \<and> written_velocities
       (snd (useFrame (Some body) gunRef delta
              (c\<lparr> yaw := 0,
                   keyState := \<lparr> forward = False, backward = False, left = True, right = False,
                                 jump = j \<rparr> \<rparr>)))
       = [Vec3 (- 4.5) (vy (linvel body)) 0]"
  using move_direction_spec [of k yw]
  by (simp add: frontVector_eq sideVector_eq written_useFrame move_direction_left_only)


section \<open>Mouse look\<close>

lemma MAX_PITCH_bounds: "0.95 \<le> MAX_PITCH" "MAX_PITCH < 2"
  using pi_ge_two pi_less_4 by (simp_all add: MAX_PITCH_def)

lemma look_onKeyDown: "yaw (onKeyDown repeat code c) = yaw c" "pitch (onKeyDown repeat code c) = pitch c"
  by (simp_all add: onKeyDown_def)

lemma look_onKeyUp: "yaw (onKeyUp code c) = yaw c" "pitch (onKeyUp code c) = pitch c"
  by (simp_all add: onKeyUp_def)

lemma look_collision:
  "yaw (onCollisionEnter c) = yaw c" "pitch (onCollisionEnter c) = pitch c"
  "yaw (onCollisionExit c) = yaw c" "pitch (onCollisionExit c) = pitch c"
  by (simp_all add: onCollisionEnter_def onCollisionExit_def)

lemma yaw_handlePointerMove:
  "yaw (handlePointerMove invertY locked mx my c) =
     (if locked then yaw c - mx * LOOK_SENSITIVITY else yaw c)"
  by (simp add: handlePointerMove_def Let_def)

lemma pitch_handlePointerMove:
  "pitch (handlePointerMove invertY locked mx my c) =
     (if locked
      then max (- MAX_PITCH)
             (min MAX_PITCH (pitch c + my * LOOK_SENSITIVITY * (if invertY then 1 else - 1)))
      else pitch c)"
  by (simp add: handlePointerMove_def Let_def)

lemma pitch_dispatch_bounded:
  assumes "\<bar>pitch c\<bar> \<le> MAX_PITCH"
  shows "\<bar>pitch (fst (dispatch invertY e c))\<bar> \<le> MAX_PITCH"
proof (cases e)
  case (PointerMove locked mx my)
  then show ?thesis
    using assms MAX_PITCH_bounds(1) by (auto simp: pitch_handlePointerMove)
qed (use assms in \<open>simp_all add: look_onKeyDown look_onKeyUp look_collision useFrame_keeps\<close>)

lemma pitch_run_bounded:
  assumes "\<bar>pitch c\<bar> \<le> MAX_PITCH"
  shows "\<bar>pitch (fst (run invertY evs c))\<bar> \<le> MAX_PITCH"
  using assms
proof (induction evs arbitrary: c)
  case Nil
  then show ?case by simp
next
  case (Cons e es)
  have "\<bar>pitch (fst (dispatch invertY e c))\<bar> \<le> MAX_PITCH"
    using Cons.prems by (rule pitch_dispatch_bounded)
  then show ?case
    unfolding run_Cons_state by (rule Cons.IH)
qed

text \<open>
  C3. From pitch 0, after every prefix of every run of events (pointer moves with any deltas,
  locked or not, and any other event between them), the stored pitch lies between
  \<open>-(pi/2 - 0.05)\<close> and \<open>pi/2 - 0.05\<close>. The yaw is not clamped: a locked pointer move
  subtracts \<open>movementX * 0.0035\<close> from it, so one move takes it above or below any bound.
\<close>

theorem C3_pitch_clamped:
  assumes "pitch c = 0"
  shows "- (pi / 2 - 0.05) \<le> pitch (fst (run invertY (take n evs) c))
       \<and> pitch (fst (run invertY (take n evs) c)) \<le> pi / 2 - 0.05
       \<and> yaw (handlePointerMove invertY True mx my c) = yaw c - mx * 0.0035
       \<and> (\<exists>mx'. B < yaw (handlePointerMove invertY True mx' my c))
       \<and> (\<exists>mx'. yaw (handlePointerMove invertY True mx' my c) < B)"
proof -
  have "\<bar>pitch c\<bar> \<le> MAX_PITCH"
    using assms MAX_PITCH_bounds(1) by simp
  then have "\<bar>pitch (fst (run invertY (take n evs) c))\<bar> \<le> MAX_PITCH"
    by (rule pitch_run_bounded)
  then have b: "- (pi / 2 - 0.05) \<le> pitch (fst (run invertY (take n evs) c))"
    "pitch (fst (run invertY (take n evs) c)) \<le> pi / 2 - 0.05"
    by (simp_all add: MAX_PITCH_def abs_le_iff)
  have y: "yaw (handlePointerMove invertY True m my c) = yaw c - m * 0.0035" for m
    by (simp add: yaw_handlePointerMove LOOK_SENSITIVITY_def)
  have "B < yaw (handlePointerMove invertY True ((yaw c - B - 1) / 0.0035) my c)"
    unfolding y by (simp add: field_simps)
  moreover have "yaw (handlePointerMove invertY True ((yaw c - B + 1) / 0.0035) my c) < B"
    unfolding y by (simp add: field_simps)
  ultimately show ?thesis using b y by blast
qed

text \<open>
  From a fresh controller, a move far up and a small move: the pitch stays within the bound;
  a move of 1000 to the right turns the yaw to \<open>-3.5\<close>.
\<close>

theorem C3_witness:
  "pitch fresh_controller = 0
   \<and> pitch (fst (run False (take 2 [PointerMove True 0 (- 1000), PointerMove True 5 3])
                  fresh_controller)) \<le> pi / 2 - 0.05
   \<and> yaw (handlePointerMove False True 1000 0 fresh_controller) = - 3.5"
  using C3_pitch_clamped [of fresh_controller False 2
          "[PointerMove True 0 (- 1000), PointerMove True 5 3]" 1000 0 0]
  by (simp add: fresh_controller_def initial_controller_def no_keys_def)

section \<open>Vertical inversion\<close>

lemma clamp_odd:
  fixes m :: real
  assumes "0 \<le> m"
  shows "max (- m) (min m (- x)) = - max (- m) (min m x)"
  using assms by (auto simp: max_def min_def)

lemma mirrored_dispatch:
  assumes "yaw c' = yaw c" and "pitch c' = - pitch c"
  shows "yaw (fst (dispatch False e c')) = yaw (fst (dispatch True e c))
       \<and> pitch (fst (dispatch False e c')) = - pitch (fst (dispatch True e c))"
proof (cases e)
  case (PointerMove locked mx my)
  have "max (- MAX_PITCH) (min MAX_PITCH (- (pitch c + my * LOOK_SENSITIVITY)))
          = - max (- MAX_PITCH) (min MAX_PITCH (pitch c + my * LOOK_SENSITIVITY))"
    using MAX_PITCH_bounds(1) by (intro clamp_odd) simp
  then show ?thesis
    using assms PointerMove by (simp add: yaw_handlePointerMove pitch_handlePointerMove)
qed (use assms in \<open>simp_all add: look_onKeyDown look_onKeyUp look_collision useFrame_keeps\<close>)

lemma mirrored_runs:
  assumes "yaw c' = yaw c" and "pitch c' = - pitch c"
  shows "pitch_deltas True evs c = map uminus (pitch_deltas False evs c')
       \<and> yaw_trace True evs c = yaw_trace False evs c'"
  using assms
proof (induction evs arbitrary: c c')
  case Nil
  show ?case by simp
next
  case (Cons e es)
  let ?d = "fst (dispatch True e c)" and ?d' = "fst (dispatch False e c')"
  have m: "yaw ?d' = yaw ?d" "pitch ?d' = - pitch ?d"
    using mirrored_dispatch [OF Cons.prems] by simp_all
  have "pitch_deltas True es ?d = map uminus (pitch_deltas False es ?d')
       \<and> yaw_trace True es ?d = yaw_trace False es ?d'"
    using m by (rule Cons.IH)
  then show ?case
    using m Cons.prems by (simp add: Let_def)
qed

text \<open>
  C8, as stated for any initial look state, fails next to the clamp. From the pitch 0.7
  (reached by looking up), the same move of 1000 changes the stored pitch by
  \<open>MAX_PITCH - 0.7\<close> with \<open>invertY\<close> and by \<open>-MAX_PITCH - 0.7\<close> without: the two
  changes are not negations of each other.
\<close>

theorem C8_counterexample:
  "pitch_deltas True [PointerMove True 0 1000] looked_up = [MAX_PITCH - 0.7]
   \<and> pitch_deltas False [PointerMove True 0 1000] looked_up = [- MAX_PITCH - 0.7]
   \<and> pitch_deltas True [PointerMove True 0 1000] looked_up
       \<noteq> map uminus (pitch_deltas False [PointerMove True 0 1000] looked_up)"
proof -
  have p: "pitch looked_up = 0.7"
    using MAX_PITCH_bounds(1)
    by (simp add: looked_up_def pitch_handlePointerMove fresh_controller_def
        initial_controller_def no_keys_def LOOK_SENSITIVITY_def)
  have t: "pitch_deltas True [PointerMove True 0 1000] looked_up = [MAX_PITCH - 0.7]"
    using MAX_PITCH_bounds by (simp add: p pitch_handlePointerMove LOOK_SENSITIVITY_def)
  have f: "pitch_deltas False [PointerMove True 0 1000] looked_up = [- MAX_PITCH - 0.7]"
    using MAX_PITCH_bounds by (simp add: p pitch_handlePointerMove LOOK_SENSITIVITY_def)
  show ?thesis unfolding t f by simp
qed

text \<open>
  C8, amended. From an initial look state with pitch 0, for the same run of events, the
  changes of the stored pitch with \<open>invertY = true\<close> are the negations of those with
  \<open>invertY = false\<close>, and the yaw after each event is the same. Each locked pointer move sets
  the pitch to the clamp of \<open>pitch + movementY * 0.0035 * (+1 or -1)\<close>; the amount added
  before the clamp with \<open>invertY\<close> is always the negation of the amount added without.
\<close>

theorem C8_invert_negates_from_level:
  assumes "pitch c = 0"
  shows "pitch_deltas True evs c = map uminus (pitch_deltas False evs c)
       \<and> yaw_trace True evs c = yaw_trace False evs c
       \<and> pitch (handlePointerMove invertY True mx my s)
           = max (- MAX_PITCH)
               (min MAX_PITCH (pitch s + my * 0.0035 * (if invertY then 1 else - 1)))
       \<and> my * 0.0035 * (if True then 1 else - 1) = - (my * 0.0035 * (if False then 1 else - 1))"
  using mirrored_runs [of c c evs] assms
  by (simp add: pitch_handlePointerMove LOOK_SENSITIVITY_def)

text \<open>
  From a fresh controller, a small move and a move into the clamp, with and without
  \<open>invertY\<close>.
\<close>

theorem C8_witness:
  "pitch fresh_controller = 0
   \<and> pitch_deltas True [PointerMove True 4 100, PointerMove True 0 1000] fresh_controller
       = [0.35, MAX_PITCH - 0.35]
   \<and> map uminus
         (pitch_deltas False [PointerMove True 4 100, PointerMove True 0 1000] fresh_controller)
       = [0.35, MAX_PITCH - 0.35]
   \<and> yaw_trace False [PointerMove True 4 100, PointerMove True 0 1000] fresh_controller
       = [- 0.014, - 0.014]"
proof -
  let ?evs = "[PointerMove True 4 100, PointerMove True 0 1000]"
  have t: "pitch_deltas True ?evs fresh_controller = [0.35, MAX_PITCH - 0.35]"
    using MAX_PITCH_bounds
    by (simp add: pitch_handlePointerMove LOOK_SENSITIVITY_def fresh_controller_def
        initial_controller_def no_keys_def Let_def)
  have y: "yaw_trace True ?evs fresh_controller = [- 0.014, - 0.014]"
    by (simp add: yaw_handlePointerMove LOOK_SENSITIVITY_def fresh_controller_def
        initial_controller_def no_keys_def Let_def)
  have z: "pitch fresh_controller = 0"
    by (simp add: fresh_controller_def initial_controller_def no_keys_def)
  note sym = C8_invert_negates_from_level [of fresh_controller ?evs, OF z]
  have "map uminus (pitch_deltas False ?evs fresh_controller) = [0.35, MAX_PITCH - 0.35]"
    using sym t by (simp only:)
  moreover have "yaw_trace False ?evs fresh_controller = [- 0.014, - 0.014]"
    using sym y by (simp only:)
  ultimately show ?thesis using z t by (simp only:)
qed


section \<open>Jumping\<close>

lemma impulses_useFrame:
  "applied_impulses (snd (useFrame (Some body) gunRef delta c))
     = (if jump_fires c (linvel body) then [Vec3 0 JUMP_IMPULSE 0] else [])"
  by (simp add: useFrame_def Let_def)

lemma jumpRequested_useFrame:
  "jumpRequested (fst (useFrame bodyRef gunRef delta c))
     = (case bodyRef of None \<Rightarrow> jumpRequested c | Some body \<Rightarrow> False)"
  by (simp add: useFrame_def Let_def split: option.split)

lemma jumpRequested_onKeyDown:
  "jumpRequested (onKeyDown repeat code c) = (jumpRequested c \<or> (\<not> repeat \<and> code = ''Space''))"
  by (simp add: onKeyDown_def)

lemma jumpRequested_onKeyUp: "jumpRequested (onKeyUp code c) = jumpRequested c"
  by (simp add: onKeyUp_def)

lemma applied_impulses_append:
  "applied_impulses (xs @ ys) = applied_impulses xs @ applied_impulses ys"
  by (induction xs rule: applied_impulses.induct) simp_all

lemma impulses_dispatch:
  "length (applied_impulses (snd (dispatch invertY e c))) + pending (fst (dispatch invertY e c))
     \<le> jump_presses [e] + pending c"
proof (cases e)
  case (Frame bodyRef gunRef delta)
  then show ?thesis
    by (cases bodyRef)
      (simp_all add: useFrame_None impulses_useFrame jumpRequested_useFrame pending_def
        jump_fires_def)
qed (simp_all add: pending_def jumpRequested_onKeyDown jumpRequested_onKeyUp
    handlePointerMove_def Let_def onCollisionEnter_def onCollisionExit_def)

lemma jump_presses_Cons: "jump_presses (e # es) = jump_presses [e] + jump_presses es"
  by (cases e) simp_all

lemma impulses_run:
  "length (applied_impulses (snd (run invertY evs c))) + pending (fst (run invertY evs c))
     \<le> jump_presses evs + pending c"
proof (induction evs arbitrary: c)
  case Nil
  show ?case by simp
next
  case (Cons e es)
  let ?c1 = "fst (dispatch invertY e c)"
  have "length (applied_impulses (snd (run invertY es ?c1))) + pending (fst (run invertY es ?c1))
          \<le> jump_presses es + pending ?c1"
    by (rule Cons.IH)
  moreover note impulses_dispatch [of invertY e c]
  ultimately show ?case
    unfolding run_Cons_calls run_Cons_state applied_impulses_append jump_presses_Cons [of e es]
    by simp
qed

text \<open>
  C1. In a frame with the body mounted, the impulse \<open>(0, 4.5, 0)\<close> is applied, once, if
  and only if the contact count is positive, the vertical velocity read in that frame is
  below 0.2 in absolute value, and a jump request is pending; no other impulse is applied.
  After such a frame the request is cleared, whether or not the impulse fired; a frame
  without a body does nothing at all. A key-down
  sets the request only for \<open>Space\<close> and only when it is not a key repeat; a key-up
  leaves it alone. So in any run the number of impulses is at most the number of Space
  key-downs that are not repeats, plus one if a request was pending at the start: one
  key-down, however long the key is held, gives at most one impulse.
\<close>

theorem C1_jump_gating:
  "applied_impulses (snd (useFrame (Some body) gunRef delta c))
     = (if contactCount c > 0 \<and> \<bar>vy (linvel body)\<bar> < 0.2 \<and> jumpRequested c
        then [Vec3 0 4.5 0] else [])
   \<and> \<not> jumpRequested (fst (useFrame (Some body) gunRef delta c))
   \<and> jumpRequested (onKeyDown repeat code c)
       = (jumpRequested c \<or> (\<not> repeat \<and> code = ''Space''))
   \<and> jumpRequested (onKeyUp code c) = jumpRequested c
   \<and> useFrame None gunRef delta c = (c, [])
   \<and> length (applied_impulses (snd (run invertY evs s)))
       \<le> jump_presses evs + (if jumpRequested s then 1 else 0)"
proof -
  have "length (applied_impulses (snd (run invertY evs s)))
       \<le> jump_presses evs + (if jumpRequested s then 1 else 0)"
    using impulses_run [of invertY evs s] by (simp add: pending_def)
  moreover have "applied_impulses (snd (useFrame (Some body) gunRef delta c))
     = (if contactCount c > 0 \<and> \<bar>vy (linvel body)\<bar> < 0.2 \<and> jumpRequested c
        then [Vec3 0 4.5 0] else [])"
    by (auto simp: impulses_useFrame jump_fires_def JUMP_IMPULSE_def)
  ultimately show ?thesis
    by (simp add: jumpRequested_useFrame jumpRequested_onKeyDown jumpRequested_onKeyUp
        useFrame_None)
qed

text \<open>
  Touching the ground, Space pressed once and held over two frames, with key repeats: the
  first frame applies the impulse, and the run applies no more than one.
\<close>

theorem C1_witness:
  "applied_impulses
     (snd (useFrame (Some body_at_rest) True (1 / 60)
            (onKeyDown False ''Space'' (onCollisionEnter fresh_controller))))
     = [Vec3 0 4.5 0]
   \<and> length (applied_impulses
        (snd (run False
               [CollisionEnter, KeyDown False ''Space'', KeyDown True ''Space'',
                Frame (Some body_at_rest) True (1 / 60), KeyDown True ''Space'',
                Frame (Some body_at_rest) True (1 / 60)]
               fresh_controller)))
       \<le> 1"
proof -
  note gate = C1_jump_gating
    [where body = body_at_rest and gunRef = True and delta = "1 / 60"
       and c = "onKeyDown False ''Space'' (onCollisionEnter fresh_controller)"
       and invertY = False and repeat = False and code = "''Space''" and s = fresh_controller
       and evs = "[CollisionEnter, KeyDown False ''Space'', KeyDown True ''Space'',
          Frame (Some body_at_rest) True (1 / 60), KeyDown True ''Space'',
          Frame (Some body_at_rest) True (1 / 60)]"]
  have "applied_impulses
     (snd (useFrame (Some body_at_rest) True (1 / 60)
            (onKeyDown False ''Space'' (onCollisionEnter fresh_controller))))
     = [Vec3 0 4.5 0]"
    using gate [THEN conjunct1]
    by (simp add: onKeyDown_def onCollisionEnter_def fresh_controller_def
        initial_controller_def no_keys_def body_at_rest_def)
  moreover have "length (applied_impulses
        (snd (run False
               [CollisionEnter, KeyDown False ''Space'', KeyDown True ''Space'',
                Frame (Some body_at_rest) True (1 / 60), KeyDown True ''Space'',
                Frame (Some body_at_rest) True (1 / 60)]
               fresh_controller)))
       \<le> 1"
    using gate [THEN conjunct2, THEN conjunct2, THEN conjunct2, THEN conjunct2, THEN conjunct2]
    by (simp add: fresh_controller_def initial_controller_def no_keys_def del: run.simps)
  ultimately show ?thesis by (simp only:)
qed


section \<open>Weapon sway in doubles\<close>

subsection \<open>Rounding to doubles\<close>








subsection \<open>The exponential at the two frame times\<close>








subsection \<open>Two frames of 1/60 s against one frame of 1/30 s\<close>

















section \<open>Weapon sway in exact arithmetic\<close>











section \<open>Projectile lifetime\<close>

lemma dispatch_projectiles:
  "projectiles (fst (dispatch invertY e c)) = projectiles c"
  "projectileIdRef (fst (dispatch invertY e c)) = projectileIdRef c"
  by (cases e; simp add: onKeyDown_def onKeyUp_def handlePointerMove_def Let_def
      onCollisionEnter_def onCollisionExit_def useFrame_def split: option.split)+

lemma expire_all_ids:
  "map proj_id (projectiles (expire_all due c))
     = filter (\<lambda>j. j \<notin> snd ` set due) (map proj_id (projectiles c))"
proof (induction due arbitrary: c)
  case Nil
  show ?case by (simp add: expire_all_def)
next
  case (Cons a due)
  obtain t i where a: "a = (t, i)" by (cases a)
  have "expire_all (a # due) c = expire_all due (handleProjectileExpire i c)"
    by (simp add: expire_all_def a)
  then show ?case
    by (simp add: Cons.IH a handleProjectileExpire_def filter_map comp_def conj_commute)
qed

lemma expire_all_idref: "projectileIdRef (expire_all due c) = projectileIdRef c"
proof (induction due arbitrary: c)
  case Nil
  show ?case by (simp add: expire_all_def)
next
  case (Cons a due)
  obtain t i where a: "a = (t, i)" by (cases a)
  have "expire_all (a # due) c = expire_all due (handleProjectileExpire i c)"
    by (simp add: expire_all_def a)
  then show ?case by (simp add: Cons.IH handleProjectileExpire_def)
qed

text \<open>Every pending timeout carries an id that has already been given out.\<close>

lemma timers_known_step:
  assumes "timers_known w"
  shows "timers_known (world_step ev w)"
proof (cases ev)
  case Fire
  then show ?thesis
    using assms by (auto simp: timers_known_def list_all_iff fire_def spawnProjectile_def Let_def)
next
  case (Elapse ms)
  then show ?thesis
    using assms by (auto simp: timers_known_def list_all_iff elapse_def Let_def expire_all_idref)
next
  case (Input invertY e)
  then show ?thesis
    using assms by (auto simp: timers_known_def list_all_iff dispatch_projectiles)
qed

lemma timers_known_run:
  assumes "timers_known w"
  shows "timers_known (run_world evs w)"
  using assms
  by (induction evs arbitrary: w) (simp_all add: run_world_def timers_known_step)

lemma timers_known_initial: "timers_known (initial_world cam_pos cam_quat keys)"
  by (simp add: timers_known_def initial_world_def)

lemma tracked_fire_first:
  assumes "timers_known w"
  shows "tracked (projectileIdRef (ctrl w)) (now w + PROJECTILE_LIFETIME_MS) (fire w)"
  using assms
  by (auto simp: tracked_def list_all_iff timers_known_def fire_def spawnProjectile_def Let_def
      active_ids_def PROJECTILE_LIFETIME_MS_def)

lemma tracked_step:
  assumes "tracked i T w"
  shows "tracked i T (world_step ev w)"
proof (cases ev)
  case Fire
  then show ?thesis
    using assms
    by (auto simp: tracked_def list_all_iff fire_def spawnProjectile_def Let_def active_ids_def)
next
  case (Elapse ms)
  let ?t = "now w + ms"
  let ?due = "filter (\<lambda>(due, i). due \<le> ?t) (timeouts w)"
  have ids: "set (active_ids (elapse ms w))
               = {j \<in> set (active_ids w). j \<notin> snd ` set ?due}"
    by (simp add: active_ids_def elapse_def Let_def expire_all_ids)
  have only: "\<And>d. (d, i) \<in> set (timeouts w) \<Longrightarrow> d = T"
    using assms by (auto simp: tracked_def list_all_iff)
  show ?thesis
  proof (cases "?t < T")
    case True
    then have "now w < T" by simp
    then have here: "i \<in> set (active_ids w)" "(T, i) \<in> set (timeouts w)"
      using assms by (simp_all add: tracked_def)
    have "i \<notin> snd ` set ?due"
      using only True by auto
    then have "i \<in> set (active_ids (elapse ms w))"
      using here ids by simp
    moreover have "(T, i) \<in> set (timeouts (elapse ms w))"
      using here True by (simp add: elapse_def Let_def)
    moreover have "now (elapse ms w) < T"
      using True by (simp add: elapse_def Let_def)
    ultimately show ?thesis
      using assms Elapse
      by (auto simp: tracked_def list_all_iff elapse_def Let_def expire_all_idref)
  next
    case False
    have "i \<notin> set (active_ids (elapse ms w))"
    proof (cases "now w < T")
      case True
      then have "(T, i) \<in> set (timeouts w)"
        using assms by (simp add: tracked_def)
      then have "(T, i) \<in> set ?due"
        using False by simp
      then have "i \<in> snd ` set ?due"
        by (metis snd_conv imageI)
      then show ?thesis using ids by simp
    next
      case False
      then have "i \<notin> set (active_ids w)"
        using assms by (simp add: tracked_def)
      then show ?thesis using ids by simp
    qed
    moreover have "\<not> now (elapse ms w) < T"
      using False by (simp add: elapse_def Let_def)
    ultimately show ?thesis
      using assms Elapse
      by (auto simp: tracked_def list_all_iff elapse_def Let_def expire_all_idref)
  qed
next
  case (Input invertY e)
  then show ?thesis
    using assms by (auto simp: tracked_def active_ids_def dispatch_projectiles split: if_splits)
qed

lemma tracked_run:
  assumes "tracked i T w"
  shows "tracked i T (run_world evs w)"
  using assms
  by (induction evs arbitrary: w) (simp_all add: run_world_def tracked_step)

lemma now_run_world: "now (run_world evs w) = now w + elapsed evs"
proof (induction evs arbitrary: w)
  case Nil
  show ?case by (simp add: run_world_def)
next
  case (Cons ev evs)
  have "now (world_step ev w) + elapsed evs = now w + elapsed (ev # evs)"
    by (cases ev) (simp_all add: fire_def elapse_def Let_def)
  then show ?case
    using Cons.IH [of "world_step ev w"] by (simp add: run_world_def)
qed

text \<open>
  C7. Take any world reached from an initial one, whatever keys are held at mount, spawn a
  projectile in it, and let any
  events follow: more spawns, time passing, key, pointer and collision events, frames. The
  projectile is in the list of active projectiles exactly as long as less than 2400 ms have
  passed since its spawn. Nothing removes it earlier, whatever collides, and the timeout
  removes it once the 2400 ms are over.
\<close>

theorem C7_projectile_lifetime:
  "(let w0 = run_world before (initial_world cam_pos cam_quat keys);
        i = projectileIdRef (ctrl w0);
        w = run_world after (fire w0)
    in (i \<in> set (active_ids w)) = (elapsed after < 2400))"
proof -
  let ?w0 = "run_world before (initial_world cam_pos cam_quat keys)"
  have "timers_known ?w0"
    by (rule timers_known_run [OF timers_known_initial])
  then have "tracked (projectileIdRef (ctrl ?w0)) (now ?w0 + PROJECTILE_LIFETIME_MS) (fire ?w0)"
    by (rule tracked_fire_first)
  then have "tracked (projectileIdRef (ctrl ?w0)) (now ?w0 + PROJECTILE_LIFETIME_MS)
               (run_world after (fire ?w0))"
    by (rule tracked_run)
  moreover have "now (run_world after (fire ?w0)) = now ?w0 + elapsed after"
    by (simp add: now_run_world fire_def)
  ultimately show ?thesis
    by (simp add: Let_def tracked_def PROJECTILE_LIFETIME_MS_def split: if_splits)
qed

text \<open>
  The first projectile, spawned at time 0: in the list after 2399 ms, gone after 2401 ms.
\<close>

theorem C7_witness:
  "0 \<in> set (active_ids (run_world [Input False CollisionEnter, Elapse 2399]
                            (fire (initial_world (Vec3 7 6 10) (Quat 0 0 0 1) no_keys))))
   \<and> 0 \<notin> set (active_ids (run_world [Input False CollisionEnter, Elapse 2399, Elapse 2]
                            (fire (initial_world (Vec3 7 6 10) (Quat 0 0 0 1) no_keys))))"
proof -
  let ?w = "initial_world (Vec3 7 6 10) (Quat 0 0 0 1) no_keys"
  have z: "run_world [] ?w = ?w" by (simp add: run_world_def)
  have i: "projectileIdRef (ctrl ?w) = 0"
    by (simp add: initial_world_def initial_controller_def no_keys_def)
  show ?thesis
    using C7_projectile_lifetime
            [of "[]" "Vec3 7 6 10" "Quat 0 0 0 1" no_keys
                "[Input False CollisionEnter, Elapse 2399]"]
          C7_projectile_lifetime
            [of "[]" "Vec3 7 6 10" "Quat 0 0 0 1" no_keys
                "[Input False CollisionEnter, Elapse 2399, Elapse 2]"]
    unfolding Let_def z i by simp
qed

section \<open>Scenery placement is a function of its parameters\<close>

lemma rng_state_add: "rng_state state (a + b) = rng_state (rng_state state a) b"
  by (induction a arbitrary: state) simp_all

lemma rng_state_three:
  "rng_state state 3
     = fst (mulberry32_next (fst (mulberry32_next (fst (mulberry32_next state)))))"
  by (simp add: numeral_3_eq_3)

lemma place_instance_eq:
  "place_instance componentName cen clampedRadius groundMeshes intersectObjects index state =
     (place_at componentName cen clampedRadius groundMeshes intersectObjects index
        (snd (mulberry32_next (rng_state state 0)) * TAU)
        (sqrt (snd (mulberry32_next (rng_state state 1))) * clampedRadius)
        (snd (mulberry32_next (rng_state state 2)) * TAU),
      rng_state state 3)"
  by (simp add: place_instance_def rng_state_three numeral_2_eq_2 split: prod.split)

lemma place_from_eq:
  "place_from componentName cen clampedRadius groundMeshes intersectObjects index n state =
     map (\<lambda>k. place_at componentName cen clampedRadius groundMeshes intersectObjects (index + k)
                (snd (mulberry32_next (rng_state state (3 * k))) * TAU)
                (sqrt (snd (mulberry32_next (rng_state state (3 * k + 1)))) * clampedRadius)
                (snd (mulberry32_next (rng_state state (3 * k + 2))) * TAU))
         [0..<n]"
proof (induction n arbitrary: index state)
  case 0
  show ?case by simp
next
  case (Suc n)
  have shift: "rng_state (rng_state state 3) j = rng_state state (3 + j)" for j
    by (simp only: rng_state_add)
  have upt: "[0..<Suc n] = 0 # map Suc [0..<n]"
    by (simp only: map_Suc_upt upt_conv_Cons zero_less_Suc)
  show ?case
    unfolding place_from.simps place_instance_eq upt
    by (simp add: Suc.IH shift comp_def algebra_simps numeral_2_eq_2
        del: upt_Suc rng_state.simps)
qed

lemma place_from_draws:
  "place_from componentName cen clampedRadius groundMeshes intersectObjects 0 n (mulberry32 seed) =
     map (\<lambda>k. place_at componentName cen clampedRadius groundMeshes intersectObjects k
                (draw seed (3 * k) * TAU)
                (sqrt (draw seed (3 * k + 1)) * clampedRadius)
                (draw seed (3 * k + 2) * TAU))
         [0..<n]"
  by (simp add: place_from_eq draw_def del: rng_state.simps)

lemma draw_range: "0 \<le> draw seed k \<and> draw seed k < 1"
proof -
  have "\<exists>w :: 32 word. draw seed k = real (unat w) / 4294967296"
    unfolding draw_def mulberry32_next_def Let_def snd_conv by (rule exI) (rule refl)
  then obtain w :: "32 word" where w: "draw seed k = real (unat w) / 4294967296" ..
  define x where "x = real (unat w)"
  have "unat w < 4294967296"
    using unsigned_less [of w, where 'a = nat] by simp
  then have "real (unat w) < real 4294967296"
    by (simp only: of_nat_less_iff)
  then have "x < 4294967296"
    unfolding x_def [symmetric] by simp
  moreover have "0 \<le> x"
    unfolding x_def by (rule of_nat_0_le_iff)
  moreover have "draw seed k = x / 4294967296"
    unfolding x_def by (rule w)
  ultimately show ?thesis by simp
qed

lemma placements_by_count:
  assumes "\<lfloor>count\<rfloor> = n"
  shows "placements componentName cen count radius seed groundMeshes intersectObjects =
     (if n \<le> 0 then Inr []
      else if n > 4294967295 then Inl RangeError
      else Inr (place_from componentName cen (max 0 radius) groundMeshes intersectObjects
                  0 (nat n) (mulberry32 seed)))"
  unfolding placements_def Let_def assms by (simp add: max_def)

text \<open>
  C9. The placements are a function of the component name, center, count, radius, seed and
  ground geometry, and of nothing else: the generator is created from the seed inside the
  computation, and its \<open>k\<close>-th number \<open>draw seed k\<close> depends on the seed alone and lies
  in \<open>[0, 1)\<close>. Instance \<open>k\<close> is built from the draws \<open>3k\<close>, \<open>3k + 1\<close> and
  \<open>3k + 2\<close>, as angle, distance and yaw. A count whose floor is 0 or less gives no
  instance, and no radius makes the computation fail: a radius below 0 counts as 0. The only
  failure is the \<open>RangeError\<close> of \<open>Array.from\<close> for a count above \<open>2 ^ 32 - 1\<close>.
\<close>

theorem C9_placements_deterministic:
  "placements componentName cen count radius seed groundMeshes intersectObjects =
     (if \<lfloor>count\<rfloor> \<le> 0 then Inr []
      else if \<lfloor>count\<rfloor> > 4294967295 then Inl RangeError
      else Inr (map (\<lambda>k. place_at componentName cen (max 0 radius) groundMeshes intersectObjects k
                           (draw seed (3 * k) * TAU)
                           (sqrt (draw seed (3 * k + 1)) * max 0 radius)
                           (draw seed (3 * k + 2) * TAU))
                  [0..<nat \<lfloor>count\<rfloor>]))
   \<and> 0 \<le> draw seed k \<and> draw seed k < 1"
  unfolding placements_by_count [OF refl] place_from_draws
  using draw_range [of seed k] by (simp only: simp_thms)


text \<open>
  The first numbers of the generator for the seeds 0 and 1, and two instances placed with a
  negative radius and no ground: both stand on the center.
\<close>

lemma draw_first:
  "draw 0 0 = 1144304738 / 4294967296" "draw 1 0 = 2693262067 / 4294967296"
  by (simp_all add: draw_def mulberry32_def ToUint32_def mulberry32_next_def to_double_def
      Let_def)

theorem C9_witness:
  "placements ''Tree'' (Center2 3 4) 2.5 (- 1) 0 ([] :: unit list) (\<lambda>ms a b far. [])
     = Inr [\<lparr> key = (''Tree'', 0), position = Vec3 3 0 4,
                rotation = Vec3 0 (draw 0 2 * TAU) 0 \<rparr>,
            \<lparr> key = (''Tree'', 1), position = Vec3 3 0 4,
                rotation = Vec3 0 (draw 0 5 * TAU) 0 \<rparr>]"
proof -
  have f: "\<lfloor>2.5 :: real\<rfloor> = 2" by linarith
  have u: "[0..<nat 2] = [0, 1]" by (simp add: upt_rec)
  show ?thesis
    unfolding C9_placements_deterministic
      [of "''Tree''" "Center2 3 4" "2.5" "- 1" 0 "[] :: unit list" "\<lambda>ms a b far. []" 0,
        THEN conjunct1] f u
    by (simp add: place_at_def numeral_2_eq_2 [symmetric])
qed

end
